theory Spec2Isabelle
  imports Complex_Main
begin

section \<open>Python objects of the profiler\<close>

text \<open>
  The profiler keeps a Python list of dictionaries. Lists, dictionaries and the
  profiler instance are objects: they are reached through references, a list holds
  references to its elements, and two references may name the same object. The model
  keeps one heap per kind of object. A heap is a total function from addresses to
  contents together with the next free address: reading a reference never fails in
  Python, and allocation hands out an address never used before.
\<close>

type_synonym addr = nat

text \<open>
  The attributes of a \<open>FastAPIProfiler\<close> instance: \<open>profiled_requests_data\<close> is a
  reference to a list object, \<open>max_retained_requests\<close> a Python integer.
\<close>

record profiler =
  profiled_requests_data :: addr
  max_retained_requests :: int

text \<open>
  A dictionary is an association list from its string keys to values of type \<open>'v\<close>
  (Python's \<open>Any\<close>); \<open>cls_instance\<close> is the class attribute
  \<open>FastAPIProfiler._instance\<close>.
\<close>

record 'v world =
  list_heap :: "addr \<Rightarrow> addr list"
  list_next :: addr
  dict_heap :: "addr \<Rightarrow> (string \<times> 'v) list"
  dict_next :: addr
  inst_heap :: "addr \<Rightarrow> profiler"
  inst_next :: addr
  cls_instance :: "addr option"

datatype error = ValueError string | KeyError string

definition new_list :: "'v world \<Rightarrow> addr list \<Rightarrow> addr \<times> 'v world" where
  "new_list w xs =
     (list_next w,
      w\<lparr>list_heap := (list_heap w)(list_next w := xs), list_next := Suc (list_next w)\<rparr>)"

definition new_dict :: "'v world \<Rightarrow> (string \<times> 'v) list \<Rightarrow> addr \<times> 'v world" where
  "new_dict w kvs =
     (dict_next w,
      w\<lparr>dict_heap := (dict_heap w)(dict_next w := kvs), dict_next := Suc (dict_next w)\<rparr>)"

text \<open>
  The slice \<open>xs[i:]\<close>: a negative start counts from the end, and a start outside the
  list is clamped, so a slice never raises. In particular \<open>xs[-0:]\<close> is the whole list.
\<close>

definition slice_from :: "'a list \<Rightarrow> int \<Rightarrow> 'a list" where
  "slice_from xs i =
     (let n = int (length xs);
          j = (if i < 0 then max (n + i) 0 else min i n)
      in drop (nat j) xs)"

section \<open>The profiler\<close>

text \<open>
  \<open>FastAPIProfiler.__new__\<close>: the instance is created and its two attributes are set
  when the class attribute is still \<open>None\<close> (tested twice, the second time under the
  lock); otherwise the existing instance is returned as it is.
\<close>

definition FastAPIProfiler_new :: "'v world \<Rightarrow> addr \<times> 'v world" where
  "FastAPIProfiler_new w =
     (case cls_instance w of
        None \<Rightarrow>
          (case cls_instance w of
             None \<Rightarrow>
               (let self = inst_next w;
                    (l, w1) = new_list w []
                in (self,
                    w1\<lparr>inst_heap := (inst_heap w1)
                          (self := \<lparr>profiled_requests_data = l, max_retained_requests = 1000\<rparr>),
                       inst_next := Suc self,
                       cls_instance := Some self\<rparr>))
           | Some a \<Rightarrow> (a, w))
      | Some a \<Rightarrow> (a, w))"

definition prune_old_data :: "'v world \<Rightarrow> addr \<Rightarrow> 'v world" where
  "prune_old_data w self =
     (let p = inst_heap w self;
          xs = list_heap w (profiled_requests_data p)
      in if int (length xs) > max_retained_requests p
         then (let (l, w1) = new_list w (slice_from xs (- max_retained_requests p))
               in w1\<lparr>inst_heap := (inst_heap w1)(self := p\<lparr>profiled_requests_data := l\<rparr>)\<rparr>)
         else w)"

definition configure :: "'v world \<Rightarrow> addr \<Rightarrow> int \<Rightarrow> (error + unit) \<times> 'v world" where
  "configure w self n =
     (if n < 1 then (Inl (ValueError ''max_retained_requests must be at least 1.''), w)
      else (Inr (),
            prune_old_data
              (w\<lparr>inst_heap := (inst_heap w)
                    (self := (inst_heap w self)\<lparr>max_retained_requests := n\<rparr>)\<rparr>) self))"

text \<open>\<open>append\<close> changes the list object in place; \<open>data\<close> is a reference to the
  caller's dictionary.\<close>

definition add_profile_data :: "'v world \<Rightarrow> addr \<Rightarrow> addr \<Rightarrow> 'v world" where
  "add_profile_data w self data =
     (let l = profiled_requests_data (inst_heap w self)
      in prune_old_data (w\<lparr>list_heap := (list_heap w)(l := list_heap w l @ [data])\<rparr>) self)"

text \<open>\<open>list(self.profiled_requests_data)\<close> builds a new list object holding the same
  references.\<close>

definition get_profile_data :: "'v world \<Rightarrow> addr \<Rightarrow> addr \<times> 'v world" where
  "get_profile_data w self = new_list w (list_heap w (profiled_requests_data (inst_heap w self)))"

definition clear_data :: "'v world \<Rightarrow> addr \<Rightarrow> 'v world" where
  "clear_data w self =
     (let (l, w1) = new_list w []
      in w1\<lparr>inst_heap := (inst_heap w1)
            (self := (inst_heap w1 self)\<lparr>profiled_requests_data := l\<rparr>)\<rparr>)"

text \<open>What the profiler holds: its entries (references, oldest first) and its capacity.\<close>

definition entries :: "'v world \<Rightarrow> addr \<Rightarrow> addr list" where
  "entries w self = list_heap w (profiled_requests_data (inst_heap w self))"

definition capacity :: "'v world \<Rightarrow> addr \<Rightarrow> int" where
  "capacity w self = max_retained_requests (inst_heap w self)"

text \<open>The list a call of \<open>get_profile_data\<close> returns, read at once.\<close>

definition snapshot :: "'v world \<Rightarrow> addr \<Rightarrow> addr list" where
  "snapshot w self = (let (r, w1) = get_profile_data w self in list_heap w1 r)"

text \<open>The world before the package is imported, and the import itself
  (\<open>profiler_instance = FastAPIProfiler()\<close>).\<close>

definition initial_world :: "'v world" where
  "initial_world =
     \<lparr>list_heap = (\<lambda>_. []), list_next = 0,
      dict_heap = (\<lambda>_. []), dict_next = 0,
      inst_heap = (\<lambda>_. \<lparr>profiled_requests_data = 0, max_retained_requests = 0\<rparr>),
      inst_next = 0,
      cls_instance = None\<rparr>"

text \<open>A run of \<open>add_profile_data\<close> calls, one per element, in order.\<close>

fun record_all :: "'v world \<Rightarrow> addr \<Rightarrow> addr list \<Rightarrow> 'v world" where
  "record_all w self [] = w"
| "record_all w self (d # ds) = record_all (add_profile_data w self d) self ds"

text \<open>The \<open>n\<close> most recent elements of a sequence, in their order.\<close>

definition most_recent :: "nat \<Rightarrow> 'a list \<Rightarrow> 'a list" where
  "most_recent n xs = drop (length xs - n) xs"


section \<open>CSV export\<close>

text \<open>
  \<open>export_to_csv\<close> hands the snapshot to pandas. Of a \<open>DataFrame\<close> the model keeps
  the column labels in order and, per row, the value under each label (\<open>None\<close> where
  the value is missing, pandas' NaN or \<open>pd.NA\<close>).
\<close>

record 'v frame =
  columns :: "string list"
  rows :: "(string \<Rightarrow> 'v option) list"

definition desired_columns :: "string list" where
  "desired_columns =
     [''Timestamp'', ''RequestPath'', ''HTTPMethod'', ''StatusCode'',
      ''TotalTimeMs'', ''CPUTimeMs'']"

definition first_seen :: "'a list \<Rightarrow> 'a list" where
  "first_seen xs = rev (remdups (rev xs))"

text \<open>\<open>pd.DataFrame(columns=cols)\<close>: the labels and no row.\<close>

definition DataFrame_columns :: "string list \<Rightarrow> 'v frame" where
  "DataFrame_columns cols = \<lparr>columns = cols, rows = []\<rparr>"

text \<open>\<open>pd.DataFrame(data)\<close> of a list of dictionaries: one row per dictionary, the
  labels are the keys in the order they are first met.\<close>

definition DataFrame_records :: "(string \<times> 'v) list list \<Rightarrow> 'v frame" where
  "DataFrame_records data =
     \<lparr>columns = first_seen (concat (map (map fst) data)), rows = map map_of data\<rparr>"

text \<open>\<open>df[col] = pd.NA\<close>: every row gets the missing value under \<open>col\<close>; a new label
  goes last.\<close>

definition set_column_NA :: "'v frame \<Rightarrow> string \<Rightarrow> 'v frame" where
  "set_column_NA df col =
     \<lparr>columns = (if col \<in> set (columns df) then columns df else columns df @ [col]),
      rows = map (\<lambda>r. r(col := None)) (rows df)\<rparr>"

text \<open>\<open>df[cols]\<close>: the named columns in the order asked for; a label the frame does
  not have raises \<open>KeyError\<close>.\<close>

definition select_columns :: "'v frame \<Rightarrow> string list \<Rightarrow> error + 'v frame" where
  "select_columns df cols =
     (case filter (\<lambda>c. c \<notin> set (columns df)) cols of
        [] \<Rightarrow> Inr \<lparr>columns = cols, rows = rows df\<rparr>
      | c # _ \<Rightarrow> Inl (KeyError c))"

fun fill_missing :: "'v frame \<Rightarrow> string list \<Rightarrow> 'v frame" where
  "fill_missing df [] = df"
| "fill_missing df (col # cols) =
     fill_missing (if col \<notin> set (columns df) then set_column_NA df col else df) cols"

fun join :: "string \<Rightarrow> string list \<Rightarrow> string" where
  "join sep [] = []"
| "join sep [x] = x"
| "join sep (x # y # ys) = x @ sep @ join sep (y # ys)"

definition csv_line :: "string list \<Rightarrow> string" where
  "csv_line fs = join '','' fs @ [CHR 0x0A]"

text \<open>
  \<open>df.to_csv(buf, index=False)\<close>: the line of labels, then one line per row, fields
  separated by commas, a missing value written as the empty field. The text pandas
  writes for a present value depends on the whole column (its inferred type) and on
  the quoting of the csv writer; it is the parameter \<open>fmt\<close>, given the values of the
  column and the value (\<open>pandas_text\<close> below models it for the values of a profile
  entry). The six labels of the export need no quoting.
\<close>

definition csv_cell :: "('v option list \<Rightarrow> 'v \<Rightarrow> string) \<Rightarrow> 'v frame \<Rightarrow>
    (string \<Rightarrow> 'v option) \<Rightarrow> string \<Rightarrow> string" where
  "csv_cell fmt df r col =
     (case r col of None \<Rightarrow> [] | Some v \<Rightarrow> fmt (map (\<lambda>r'. r' col) (rows df)) v)"

definition to_csv :: "('v option list \<Rightarrow> 'v \<Rightarrow> string) \<Rightarrow> 'v frame \<Rightarrow> string" where
  "to_csv fmt df =
     csv_line (columns df) @
     concat (map (\<lambda>r. csv_line (map (csv_cell fmt df r) (columns df))) (rows df))"

text \<open>The result is the content of the returned \<open>StringIO\<close>, read from its start.\<close>

definition export_to_csv ::
    "('v option list \<Rightarrow> 'v \<Rightarrow> string) \<Rightarrow> 'v world \<Rightarrow> addr \<Rightarrow> (error + string) \<times> 'v world" where
  "export_to_csv fmt w self =
     (let (r, w1) = get_profile_data w self;
          data_to_export = map (dict_heap w1) (list_heap w1 r)
      in case (if data_to_export = [] then Inr (DataFrame_columns desired_columns)
               else select_columns
                      (fill_missing (DataFrame_records data_to_export) desired_columns)
                      desired_columns) of
           Inl e \<Rightarrow> (Inl e, w1)
         | Inr df \<Rightarrow> (Inr (to_csv fmt df), w1))"

section \<open>The middleware\<close>

text \<open>
  The values of a profile entry are strings, integers and floats. No arithmetic on
  floats is modelled: the measured times reach the model already computed, and a
  float is given by the decimal number Python prints for it.
\<close>

datatype pyval = PyStr string | PyInt int | PyFloat real

text \<open>
  Exceptions: \<open>Exception m\<close> stands for an instance of \<open>Exception\<close> or of one of its
  subclasses, \<open>BaseException m\<close> for one outside \<open>Exception\<close> (a cancellation, a keyboard
  interrupt); \<open>AttributeError\<close> is a subclass of \<open>Exception\<close>.
\<close>

datatype exn = Exception string | BaseException string | AttributeError string

fun is_Exception :: "exn \<Rightarrow> bool" where
  "is_Exception (BaseException _) = False"
| "is_Exception _ = True"

text \<open>How a block of statements is left.\<close>

datatype 'a flow = Falls_through | Returns 'a | Raises exn

text \<open>
  \<open>try: ... finally: ...\<close>: when the \<open>finally\<close> block itself returns or raises, that
  is how the statement is left and whatever the \<open>try\<close> part left pending (an exception
  on its way out, a return value) is dropped; otherwise the pending exit goes on.
\<close>

definition try_finally :: "'a flow \<Rightarrow> 'a flow \<Rightarrow> 'a flow" where
  "try_finally pending fin = (case fin of Falls_through \<Rightarrow> pending | _ \<Rightarrow> fin)"

record request =
  url_path :: string
  request_method :: string
  query_params :: "(string \<times> string) list"

record response =
  status_code :: int
  content :: string

record middleware =
  enable_by_default :: bool
  profile_query_param :: string

text \<open>
  What a call of \<open>dispatch\<close> reads from outside the program: the environment variable
  \<open>FASTAPI_SIMPLE_PROFILER_ENABLED\<close> (\<open>None\<close> when unset), whether pyinstrument's
  \<open>Profiler\<close> was imported, the CPU time read from the profiler's JSON output,
  in milliseconds and rounded (\<open>None\<close> when reading it raised), the formatted local
  time, and the rounded wall-clock time in milliseconds.
\<close>

record observed =
  getenv_enabled :: "string option"
  Profiler :: bool
  profiler_cpu_time_ms :: "real option"
  strftime_now :: string
  total_time_ms :: real

definition lower_char :: "char \<Rightarrow> char" where
  "lower_char c =
     (let n = (of_char c :: nat) in if 65 \<le> n \<and> n \<le> 90 then char_of (n + 32) else c)"

definition lower :: "string \<Rightarrow> string" where
  "lower s = map lower_char s"

definition profile_active :: "bool \<Rightarrow> string option \<Rightarrow> string option \<Rightarrow> bool" where
  "profile_active by_default env_value query_value =
     (let is_enabled_by_env =
            (lower (case env_value of None \<Rightarrow> ''false'' | Some v \<Rightarrow> v) = ''true'');
          query_param_value = lower (case query_value of None \<Rightarrow> [] | Some v \<Rightarrow> v);
          is_enabled_by_query = (query_param_value = ''true'');
          is_disabled_by_query = (query_param_value = ''false'')
      in (by_default \<and> \<not> is_disabled_by_query) \<or>
         (\<not> by_default \<and> (is_enabled_by_query \<or> is_enabled_by_env)))"

text \<open>The message of the \<open>AttributeError\<close> Python raises for \<open>None.status_code\<close>.\<close>

definition no_status_code :: string where
  "no_status_code =
     [CHR 0x27] @ ''NoneType'' @ [CHR 0x27] @ '' object has no attribute ''
     @ [CHR 0x27] @ ''status_code'' @ [CHR 0x27]"

text \<open>
  \<open>dispatch\<close>; \<open>call_next\<close> is what awaiting \<open>call_next(request)\<close> does: it returns a
  response or raises. The \<open>except\<close> clause takes instances of \<open>Exception\<close> only. In the
  \<open>finally\<close> block the entry is built field by field, so reading \<open>response.status_code\<close>
  while \<open>response\<close> is \<open>None\<close> raises before anything is recorded. The query
  parameters are the pairs of the URL in their order; \<open>query_params.get\<close> gives the
  last value of a repeated key.
\<close>

definition dispatch :: "middleware \<Rightarrow> observed \<Rightarrow> request \<Rightarrow> exn + response \<Rightarrow>
    pyval world \<Rightarrow> addr \<Rightarrow> response flow \<times> pyval world" where
  "dispatch mw obs req call_next w profiler_instance =
     (let active = profile_active (enable_by_default mw) (getenv_enabled obs)
                     (map_of (rev (query_params req)) (profile_query_param mw));
          profiler = (active \<and> Profiler obs);
          response0 = None;
          (response, pending) =
             (case call_next of
                Inr r \<Rightarrow> (Some r, Falls_through)
              | Inl e \<Rightarrow>
                  if is_Exception e
                  then ((if response0 = None
                         then Some \<lparr>status_code = 500, content = ''Internal Server Error''\<rparr>
                         else response0), Raises e)
                  else (response0, Raises e));
          cpu_time_ms =
             (if profiler
              then (case profiler_cpu_time_ms obs of Some c \<Rightarrow> c | None \<Rightarrow> 0)
              else 0);
          (fin, w') =
             (case response of
                None \<Rightarrow>
                  (Raises (AttributeError no_status_code), w)
              | Some r \<Rightarrow>
                  (let (profile_data, w1) = new_dict w
                         [(''Timestamp'', PyStr (strftime_now obs)),
                          (''RequestPath'', PyStr (url_path req)),
                          (''HTTPMethod'', PyStr (request_method req)),
                          (''StatusCode'', PyInt (status_code r)),
                          (''TotalTimeMs'', PyFloat (total_time_ms obs)),
                          (''CPUTimeMs'', PyFloat cpu_time_ms)]
                   in (Returns r, add_profile_data w1 profiler_instance profile_data)))
      in (try_finally pending fin, w'))"

section \<open>Calls on the profiler\<close>

datatype call = Configure int | Record addr | Snapshot | Clear | Export

datatype outcome = Done | List_at addr | Csv string

fun invoke :: "('v option list \<Rightarrow> 'v \<Rightarrow> string) \<Rightarrow> 'v world \<Rightarrow> addr \<Rightarrow> call \<Rightarrow>
    (error + outcome) \<times> 'v world" where
  "invoke fmt w self (Configure n) =
     (case configure w self n of (Inl e, w1) \<Rightarrow> (Inl e, w1) | (Inr _, w1) \<Rightarrow> (Inr Done, w1))"
| "invoke fmt w self (Record d) = (Inr Done, add_profile_data w self d)"
| "invoke fmt w self Snapshot =
     (let (r, w1) = get_profile_data w self in (Inr (List_at r), w1))"
| "invoke fmt w self Clear = (Inr Done, clear_data w self)"
| "invoke fmt w self Export =
     (case export_to_csv fmt w self of
        (Inl e, w1) \<Rightarrow> (Inl e, w1) | (Inr s, w1) \<Rightarrow> (Inr (Csv s), w1))"

text \<open>A sequence of calls; a call that raises leaves the world as the call left it and
  the caller goes on.\<close>

fun run :: "('v option list \<Rightarrow> 'v \<Rightarrow> string) \<Rightarrow> 'v world \<Rightarrow> addr \<Rightarrow> call list \<Rightarrow> 'v world" where
  "run fmt w self [] = w"
| "run fmt w self (c # cs) = run fmt (snd (invoke fmt w self c)) self cs"

text \<open>Constructing \<open>FastAPIProfiler()\<close> \<open>n\<close> times: the references returned, in order,
  and the world afterwards.\<close>

fun construct_times :: "nat \<Rightarrow> 'v world \<Rightarrow> addr list \<times> 'v world" where
  "construct_times 0 w = ([], w)"
| "construct_times (Suc n) w =
     (let (a, w1) = FastAPIProfiler_new w; (as, w2) = construct_times n w1 in (a # as, w2))"

text \<open>The capacity is positive and the entries fit in it.\<close>

definition within_capacity :: "'v world \<Rightarrow> addr \<Rightarrow> bool" where
  "within_capacity w self \<longleftrightarrow>
     1 \<le> capacity w self \<and> int (length (entries w self)) \<le> capacity w self"

text \<open>The entries by value: the dictionaries the references lead to.\<close>

definition contents :: "'v world \<Rightarrow> addr \<Rightarrow> (string \<times> 'v) list list" where
  "contents w self = map (dict_heap w) (entries w self)"

text \<open>A world for examples: the profiler after one entry without \<open>CPUTimeMs\<close>.\<close>

definition one_entry_world :: "string world" where
  "one_entry_world =
     (let (self, w1) = FastAPIProfiler_new initial_world;
          (d, w2) = new_dict w1
             [(''Timestamp'', ''2024-05-01 10:20:30''), (''RequestPath'', ''/items/3''),
              (''HTTPMethod'', ''GET''), (''StatusCode'', ''200''), (''TotalTimeMs'', ''12.346'')]
      in add_profile_data w2 self d)"

text \<open>Observations and a request for examples.\<close>

definition sample_obs :: observed where
  "sample_obs = \<lparr>getenv_enabled = None, Profiler = False, profiler_cpu_time_ms = None,
      strftime_now = ''2024-05-01 10:20:30'', total_time_ms = 12.346\<rparr>"

definition sample_request :: request where
  "sample_request = \<lparr>url_path = ''/items/3'', request_method = ''GET'', query_params = []\<rparr>"

text \<open>
  The text of values in the CSV. A float stands for the decimal number Python prints
  for it; the floats the middleware records are rounded to three decimals, so they
  are thousandths, and Python prints a float of fewer than sixteen digits that is
  \<open>k / 1000\<close> as that decimal, without trailing zeros but with at least one digit after
  the point. The text of any other float is left open (the parameter \<open>other\<close>).
\<close>

definition digit_char :: "nat \<Rightarrow> char" where
  "digit_char n = char_of (48 + n)"

fun nat_text :: "nat \<Rightarrow> string" where
  "nat_text n = (if n < 10 then [digit_char n] else nat_text (n div 10) @ [digit_char (n mod 10)])"

declare nat_text.simps [simp del]

definition int_text :: "int \<Rightarrow> string" where
  "int_text i = (if i < 0 then CHR ''-'' # nat_text (nat (- i)) else nat_text (nat i))"

definition thousandths_text :: "int \<Rightarrow> string" where
  "thousandths_text k =
     (let a = nat \<bar>k\<bar>; f = a mod 1000
      in (if k < 0 then ''-'' else []) @ nat_text (a div 1000) @ ''.'' @
         (if f mod 100 = 0 then [digit_char (f div 100)]
          else if f mod 10 = 0 then [digit_char (f div 100), digit_char (f div 10 mod 10)]
          else [digit_char (f div 100), digit_char (f div 10 mod 10), digit_char (f mod 10)]))"

definition float_text :: "(real \<Rightarrow> string) \<Rightarrow> real \<Rightarrow> string" where
  "float_text other x =
     (let k = \<lfloor>x * 1000\<rfloor>
      in if of_int k = x * 1000 \<and> \<bar>k\<bar> < 10 ^ 15 then thousandths_text k else other x)"

text \<open>
  The csv writer (minimal quoting, double quotes doubled): a field holding a comma, a
  double quote, a line feed or a carriage return is put in double quotes.
\<close>

definition csv_quote :: "string \<Rightarrow> string" where
  "csv_quote s =
     (if list_ex (\<lambda>c. c \<in> {CHR '','', CHR 0x22, CHR 0x0A, CHR 0x0D}) s
      then [CHR 0x22] @ concat (map (\<lambda>c. if c = CHR 0x22 then [c, c] else [c]) s) @ [CHR 0x22]
      else s)"

text \<open>The text of a value on its own: \<open>str\<close> of it, quoted when needed.\<close>

fun value_text :: "(real \<Rightarrow> string) \<Rightarrow> pyval \<Rightarrow> string" where
  "value_text other (PyStr s) = csv_quote s"
| "value_text other (PyInt i) = int_text i"
| "value_text other (PyFloat x) = float_text other x"

text \<open>
  pandas writes a value according to the type it infers for the column: a column with
  a string holds objects, each written on its own; a column of integers only, none
  missing, is an integer column; any other column of numbers is a float column, where
  an integer is written as the float it becomes.
\<close>

fun is_str :: "pyval option \<Rightarrow> bool" where
  "is_str (Some (PyStr _)) = True"
| "is_str _ = False"

fun is_int :: "pyval option \<Rightarrow> bool" where
  "is_int (Some (PyInt _)) = True"
| "is_int _ = False"

definition pandas_text :: "(real \<Rightarrow> string) \<Rightarrow> pyval option list \<Rightarrow> pyval \<Rightarrow> string" where
  "pandas_text other col v =
     (if list_ex is_str col \<or> list_all is_int col then value_text other v
      else (case v of
              PyInt i \<Rightarrow> if \<bar>i\<bar> < 10 ^ 15 then int_text i @ ''.0'' else other (of_int i)
            | _ \<Rightarrow> value_text other v))"

text \<open>The field of a one-row export under a label: empty when the entry lacks the key,
  the text of the value otherwise.\<close>

definition entry_field :: "(real \<Rightarrow> string) \<Rightarrow> (string \<times> pyval) list \<Rightarrow> string \<Rightarrow> string" where
  "entry_field other d col = (case map_of d col of None \<Rightarrow> [] | Some v \<Rightarrow> value_text other v)"

text \<open>Worlds for examples: the profiler after \<open>dispatch\<close> of one request, and after one
  entry that lacks three of the keys and has one more.\<close>

definition dispatched_world :: "pyval world" where
  "dispatched_world =
     snd (dispatch \<lparr>enable_by_default = False, profile_query_param = ''profile''\<rparr>
            sample_obs sample_request (Inr \<lparr>status_code = 200, content = ''ok''\<rparr>)
            (snd (FastAPIProfiler_new initial_world)) 0)"

definition partial_entry_world :: "pyval world" where
  "partial_entry_world =
     (let (self, w1) = FastAPIProfiler_new initial_world;
          (d, w2) = new_dict w1
             [(''RequestPath'', PyStr ''/a,b''), (''StatusCode'', PyInt 404),
              (''TotalTimeMs'', PyFloat 7.5), (''Extra'', PyStr ''x'')]
      in add_profile_data w2 self d)"


text \<open>
  What a caller can do with a list it holds the reference \<open>r\<close> of: change the list in
  place (append, remove, sort, assign an element: afterwards the list has some content
  \<open>ys\<close>), or change in place the dictionary its \<open>i\<close>-th element refers to (an index out
  of range raises and changes nothing).
\<close>

datatype 'v mutation = Set_list "addr list" | Set_entry nat "(string \<times> 'v) list"

fun mutate :: "'v world \<Rightarrow> addr \<Rightarrow> 'v mutation \<Rightarrow> 'v world" where
  "mutate w r (Set_list ys) = w\<lparr>list_heap := (list_heap w)(r := ys)\<rparr>"
| "mutate w r (Set_entry i kvs) =
     (if i < length (list_heap w r)
      then w\<lparr>dict_heap := (dict_heap w)(list_heap w r ! i := kvs)\<rparr>
      else w)"

text \<open>The list of the profiler is an allocated list object.\<close>

definition allocated :: "'v world \<Rightarrow> addr \<Rightarrow> bool" where
  "allocated w self \<longleftrightarrow> profiled_requests_data (inst_heap w self) < list_next w"

section \<open>Pruning\<close>

lemma slice_from_neg: "1 \<le> n \<Longrightarrow> slice_from xs (- n) = most_recent (nat n) xs"
  by (auto simp: slice_from_def most_recent_def Let_def max_def intro!: arg_cong2 [where f = drop])

lemma entries_prune:
  "1 \<le> capacity w self \<Longrightarrow>
   entries (prune_old_data w self) self = most_recent (nat (capacity w self)) (entries w self)"
  by (auto simp: prune_old_data_def entries_def capacity_def new_list_def Let_def
      slice_from_neg most_recent_def)

lemma capacity_prune: "capacity (prune_old_data w self) self = capacity w self"
  by (simp add: prune_old_data_def capacity_def new_list_def Let_def)

lemma entries_add:
  "1 \<le> capacity w self \<Longrightarrow>
   entries (add_profile_data w self d) self
     = most_recent (nat (capacity w self)) (entries w self @ [d])"
proof -
  let ?w = "w\<lparr>list_heap := (list_heap w)(profiled_requests_data (inst_heap w self)
      := list_heap w (profiled_requests_data (inst_heap w self)) @ [d])\<rparr>"
  assume c: "1 \<le> capacity w self"
  have cap: "capacity ?w self = capacity w self"
    by (simp add: capacity_def)
  have ent: "entries ?w self = entries w self @ [d]"
    by (simp add: entries_def)
  have "add_profile_data w self d = prune_old_data ?w self"
    by (simp add: add_profile_data_def Let_def)
  then show ?thesis
    using entries_prune [of ?w self] c cap ent by simp
qed

lemma capacity_add: "capacity (add_profile_data w self d) self = capacity w self"
  by (simp add: add_profile_data_def Let_def capacity_prune) (simp add: capacity_def)

lemma snapshot_entries: "snapshot w self = entries w self"
  by (simp add: snapshot_def get_profile_data_def new_list_def entries_def)

lemma most_recent_snoc:
  "0 < n \<Longrightarrow> most_recent n (most_recent n xs @ [x]) = most_recent n (xs @ [x])"
proof -
  assume "0 < n"
  then have "length (drop (length xs - n) xs @ [x]) - n + (length xs - n) = length (xs @ [x]) - n"
    by simp
  then show ?thesis
    by (simp add: most_recent_def)
qed

lemma most_recent_append:
  "0 < n \<Longrightarrow> most_recent n (most_recent n xs @ ys) = most_recent n (xs @ ys)"
proof (induction ys rule: rev_induct)
  case Nil
  then show ?case
    by (simp add: most_recent_def)
next
  case (snoc y ys)
  have "most_recent n (most_recent n xs @ ys @ [y])
      = most_recent n (most_recent n (most_recent n xs @ ys) @ [y])"
    using snoc.prems most_recent_snoc [of n "most_recent n xs @ ys" y] by simp
  also have "\<dots> = most_recent n (most_recent n (xs @ ys) @ [y])"
    using snoc by simp
  also have "\<dots> = most_recent n ((xs @ ys) @ [y])"
    using snoc.prems by (rule most_recent_snoc)
  finally show ?case
    by simp
qed

lemma capacity_record_all: "capacity (record_all w self ds) self = capacity w self"
  by (induction ds arbitrary: w) (simp_all add: capacity_add)

lemma length_most_recent: "length (most_recent n xs) = min (length xs) n"
  by (simp add: most_recent_def)

lemma most_recent_all: "length xs \<le> n \<Longrightarrow> most_recent n xs = xs"
  by (simp add: most_recent_def)

lemma entries_record_all:
  "1 \<le> capacity w self \<Longrightarrow> int (length (entries w self)) \<le> capacity w self \<Longrightarrow>
   entries (record_all w self ds) self
     = most_recent (nat (capacity w self)) (entries w self @ ds)"
proof (induction ds arbitrary: w)
  case Nil
  then show ?case
    by (simp add: most_recent_all)
next
  case (Cons d ds)
  let ?c = "nat (capacity w self)"
  let ?w = "add_profile_data w self d"
  have pos: "0 < ?c"
    using Cons.prems by simp
  have ent: "entries ?w self = most_recent ?c (entries w self @ [d])"
    using Cons.prems by (simp add: entries_add)
  have "int (length (entries ?w self)) \<le> capacity ?w self"
    using Cons.prems by (simp add: ent length_most_recent capacity_add)
  then have "entries (record_all w self (d # ds)) self
      = most_recent ?c (most_recent ?c (entries w self @ [d]) @ ds)"
    using Cons.IH [of ?w] Cons.prems by (simp add: capacity_add ent)
  also have "\<dots> = most_recent ?c ((entries w self @ [d]) @ ds)"
    using pos by (rule most_recent_append)
  finally show ?case
    by simp
qed

lemma entries_configure:
  "1 \<le> n \<Longrightarrow> entries (snd (configure w self n)) self = most_recent (nat n) (entries w self)"
proof -
  let ?w = "w\<lparr>inst_heap := (inst_heap w)(self := (inst_heap w self)\<lparr>max_retained_requests := n\<rparr>)\<rparr>"
  assume n: "1 \<le> n"
  have cap: "capacity ?w self = n"
    by (simp add: capacity_def)
  have ent: "entries ?w self = entries w self"
    by (simp add: entries_def)
  have "snd (configure w self n) = prune_old_data ?w self"
    using n by (simp add: configure_def)
  then show ?thesis
    using entries_prune [of ?w self] n cap ent by simp
qed

lemma capacity_configure: "1 \<le> n \<Longrightarrow> capacity (snd (configure w self n)) self = n"
  by (simp add: configure_def capacity_prune) (simp add: capacity_def)

lemma configure_rejects: "n < 1 \<Longrightarrow> snd (configure w self n) = w"
  by (simp add: configure_def)

lemma entries_clear: "entries (clear_data w self) self = []"
  by (simp add: clear_data_def new_list_def entries_def)

lemma capacity_clear: "capacity (clear_data w self) self = capacity w self"
  by (simp add: clear_data_def new_list_def capacity_def)

lemma inst_heap_get: "inst_heap (snd (get_profile_data w self)) = inst_heap w"
  by (simp add: get_profile_data_def new_list_def)

lemma snd_export: "snd (export_to_csv fmt w self) = snd (get_profile_data w self)"
  by (simp add: export_to_csv_def Let_def split: prod.splits sum.splits)



lemma most_recent_within: "1 \<le> c \<Longrightarrow> int (length (most_recent (nat c) xs)) \<le> c"
  by (simp add: length_most_recent min_def) linarith

lemma within_capacity_invoke:
  "within_capacity w self \<Longrightarrow> within_capacity (snd (invoke fmt w self c)) self"
proof (cases c)
  case (Configure n)
  assume inv: "within_capacity w self"
  show ?thesis
  proof (cases "n < 1")
    case True
    then show ?thesis
      using inv Configure by (simp add: configure_def)
  next
    case False
    then have n: "1 \<le> n" by simp
    have "snd (invoke fmt w self c) = snd (configure w self n)"
      using Configure by (simp split: prod.splits sum.splits)
    then show ?thesis
      using n by (simp add: within_capacity_def entries_configure capacity_configure
          most_recent_within)
  qed
next
  case (Record d)
  assume "within_capacity w self"
  then show ?thesis
    using Record by (simp add: within_capacity_def entries_add capacity_add most_recent_within)
next
  case Snapshot
  assume "within_capacity w self"
  then show ?thesis
    using Snapshot
    by (simp add: within_capacity_def entries_def capacity_def get_profile_data_def new_list_def)
next
  case Clear
  assume "within_capacity w self"
  then show ?thesis
    using Clear by (simp add: within_capacity_def entries_clear capacity_clear)
next
  case Export
  assume inv: "within_capacity w self"
  have "snd (invoke fmt w self c) = snd (get_profile_data w self)"
    using Export snd_export [of fmt w self] by (auto split: prod.splits sum.splits)
  then show ?thesis
    using inv
    by (simp add: within_capacity_def entries_def capacity_def get_profile_data_def new_list_def)
qed

lemma within_capacity_run:
  "within_capacity w self \<Longrightarrow> within_capacity (run fmt w self cs) self"
  by (induction cs arbitrary: w) (simp_all add: within_capacity_invoke)

section \<open>Capacity bound\<close>

text \<open>
  Claim C1. Starting from a profiler with no entry and a capacity of at least one
  (every capacity \<open>configure\<close> accepts, and the default), after recording the
  references \<open>ds\<close> one after the other the snapshot has \<open>min (length ds) capacity\<close>
  elements; and whatever calls follow, the number of entries stays within the
  capacity in force.
\<close>

theorem capacity_bound:
  assumes "1 \<le> capacity w self" and "entries w self = []"
  shows "length (snapshot (record_all w self ds) self) = min (length ds) (nat (capacity w self))
    \<and> int (length (entries (run fmt (record_all w self ds) self cs) self))
        \<le> capacity (run fmt (record_all w self ds) self cs) self"
proof -
  have ent: "entries (record_all w self ds) self = most_recent (nat (capacity w self)) ds"
    using assms entries_record_all [of w self ds] by simp
  then have len: "length (snapshot (record_all w self ds) self)
      = min (length ds) (nat (capacity w self))"
    by (simp add: snapshot_entries length_most_recent)
  have "within_capacity (record_all w self ds) self"
    using assms(1) by (simp add: within_capacity_def ent most_recent_within capacity_record_all)
  then have "within_capacity (run fmt (record_all w self ds) self cs) self"
    by (rule within_capacity_run)
  then show ?thesis
    using len by (simp add: within_capacity_def)
qed

theorem capacity_bound_witness:
  "1 \<le> capacity (snd (configure (snd (FastAPIProfiler_new (initial_world :: pyval world))) 0 2)) 0
   \<and> entries (snd (configure (snd (FastAPIProfiler_new (initial_world :: pyval world))) 0 2)) 0 = []
   \<and> length (snapshot (record_all
         (snd (configure (snd (FastAPIProfiler_new (initial_world :: pyval world))) 0 2)) 0 [5, 6, 7]) 0) = 2"
proof -
  let ?w = "snd (configure (snd (FastAPIProfiler_new (initial_world :: pyval world))) 0 2)"
  have c: "capacity ?w 0 = 2"
    by (simp add: capacity_def configure_def FastAPIProfiler_new_def initial_world_def
        new_list_def prune_old_data_def Let_def)
  have e: "entries ?w 0 = []"
    by (simp add: entries_def configure_def FastAPIProfiler_new_def initial_world_def
        new_list_def prune_old_data_def Let_def)
  show ?thesis
    using capacity_bound [of ?w 0 "[5, 6, 7]" "\<lambda>_ _. []" "[]"] c e by simp
qed

section \<open>FIFO eviction\<close>

text \<open>
  Claim C2. With a capacity of at least one, recording keeps the most recent
  \<open>capacity\<close> references of the old entries followed by the new one, and an accepted
  \<open>configure n\<close> keeps the most recent \<open>n\<close> entries: in both cases the tail of the
  sequence, in its order, with nothing dropped but its oldest elements. When the
  entries exceed the capacity, pruning leaves exactly \<open>capacity\<close> of them. Recording
  \<open>ds\<close> into a profiler without entries leaves the last \<open>capacity\<close> elements of \<open>ds\<close>.
\<close>

theorem fifo_eviction:
  assumes "1 \<le> capacity w self"
  shows "entries (add_profile_data w self d) self
           = most_recent (nat (capacity w self)) (entries w self @ [d])
    \<and> (1 \<le> n \<longrightarrow>
         entries (snd (configure w self n)) self = most_recent (nat n) (entries w self))
    \<and> (capacity w self < int (length (entries w self)) \<longrightarrow>
         entries (prune_old_data w self) self
           = drop (length (entries w self) - nat (capacity w self)) (entries w self)
         \<and> int (length (entries (prune_old_data w self) self)) = capacity w self)
    \<and> (entries w self = [] \<longrightarrow>
         entries (record_all w self ds) self = drop (length ds - nat (capacity w self)) ds)"
proof -
  have "entries (record_all w self ds) self = drop (length ds - nat (capacity w self)) ds"
    if "entries w self = []"
    using that assms entries_record_all [of w self ds] by (simp add: most_recent_def)
  moreover have "int (length (entries (prune_old_data w self) self)) = capacity w self"
    if "capacity w self < int (length (entries w self))"
    using that assms by (simp add: entries_prune length_most_recent)
  ultimately show ?thesis
    using assms by (simp add: entries_add entries_configure entries_prune most_recent_def)
qed

theorem fifo_eviction_witness:
  "1 \<le> capacity (record_all (snd (configure (snd (FastAPIProfiler_new
         (initial_world :: pyval world))) 0 10)) 0 [0, 1, 2, 3, 4, 5, 6, 7, 8, 9]) 0
   \<and> entries (record_all (snd (configure (snd (FastAPIProfiler_new
         (initial_world :: pyval world))) 0 10)) 0 [0, 1, 2, 3, 4, 5, 6, 7, 8, 9]) 0
       = [0, 1, 2, 3, 4, 5, 6, 7, 8, 9]
   \<and> entries (snd (configure (record_all (snd (configure (snd (FastAPIProfiler_new
         (initial_world :: pyval world))) 0 10)) 0 [0, 1, 2, 3, 4, 5, 6, 7, 8, 9]) 0 3)) 0
       = [7, 8, 9]
   \<and> entries (add_profile_data (record_all (snd (configure (snd (FastAPIProfiler_new
         (initial_world :: pyval world))) 0 10)) 0 [0, 1, 2, 3, 4, 5, 6, 7, 8, 9]) 0 10) 0
       = [1, 2, 3, 4, 5, 6, 7, 8, 9, 10]"
proof -
  let ?init = "snd (configure (snd (FastAPIProfiler_new (initial_world :: pyval world))) 0 10)"
  let ?w = "record_all ?init 0 [0, 1, 2, 3, 4, 5, 6, 7, 8, 9]"
  have c0: "capacity ?init 0 = 10"
    by (simp add: capacity_def configure_def FastAPIProfiler_new_def initial_world_def
        new_list_def prune_old_data_def Let_def)
  have e0: "entries ?init 0 = []"
    by (simp add: entries_def configure_def FastAPIProfiler_new_def initial_world_def
        new_list_def prune_old_data_def Let_def)
  have c: "capacity ?w 0 = 10"
    using c0 by (simp only: capacity_record_all)
  have e: "entries ?w 0 = [0, 1, 2, 3, 4, 5, 6, 7, 8, 9]"
    using entries_record_all [of ?init 0 "[0, 1, 2, 3, 4, 5, 6, 7, 8, 9]"] c0 e0
    by (simp add: most_recent_def)
  show ?thesis
    using fifo_eviction [of ?w 0 10 3 "[]"] c e by (simp add: most_recent_def)
qed

section \<open>The exported frame\<close>

lemma columns_fill_mono: "set (columns df) \<subseteq> set (columns (fill_missing df cols))"
proof (induction cols arbitrary: df)
  case Nil
  show ?case by simp
next
  case (Cons c cols)
  let ?df = "if c \<notin> set (columns df) then set_column_NA df c else df"
  have "set (columns df) \<subseteq> set (columns ?df)"
    by (auto simp: set_column_NA_def)
  also have "\<dots> \<subseteq> set (columns (fill_missing ?df cols))"
    by (rule Cons.IH)
  finally show ?case
    by simp
qed

lemma columns_fill_has: "set cols \<subseteq> set (columns (fill_missing df cols))"
proof (induction cols arbitrary: df)
  case Nil
  show ?case by simp
next
  case (Cons c cols)
  let ?df = "if c \<notin> set (columns df) then set_column_NA df c else df"
  have "c \<in> set (columns ?df)"
    by (simp add: set_column_NA_def)
  then have "c \<in> set (columns (fill_missing ?df cols))"
    using columns_fill_mono [of ?df cols] by blast
  moreover have "set cols \<subseteq> set (columns (fill_missing ?df cols))"
    by (rule Cons.IH)
  ultimately show ?case
    by simp
qed

lemma rows_fill:
  "(\<And>r c. r \<in> set (rows df) \<Longrightarrow> c \<notin> set (columns df) \<Longrightarrow> r c = None) \<Longrightarrow>
   rows (fill_missing df cols) = rows df"
proof (induction cols arbitrary: df)
  case Nil
  show ?case by simp
next
  case (Cons c cols)
  let ?df = "if c \<notin> set (columns df) then set_column_NA df c else df"
  have same: "rows ?df = rows df"
  proof (cases "c \<in> set (columns df)")
    case True
    then show ?thesis by simp
  next
    case False
    then have "\<And>r. r \<in> set (rows df) \<Longrightarrow> r(c := None) = r"
      using Cons.prems by (simp add: fun_upd_idem)
    then have "map (\<lambda>r. r(c := None)) (rows df) = rows df"
      by (simp add: map_idI)
    then show ?thesis
      using False by (simp add: set_column_NA_def)
  qed
  have "\<And>r c'. r \<in> set (rows ?df) \<Longrightarrow> c' \<notin> set (columns ?df) \<Longrightarrow> r c' = None"
  proof -
    fix r c'
    assume "r \<in> set (rows ?df)" and "c' \<notin> set (columns ?df)"
    then have "r \<in> set (rows df)" and "c' \<notin> set (columns df)"
      using same by (auto simp: set_column_NA_def split: if_splits)
    then show "r c' = None"
      by (rule Cons.prems)
  qed
  then have "rows (fill_missing ?df cols) = rows ?df"
    by (rule Cons.IH)
  then show ?case
    using same by simp
qed

lemma rows_records_missing:
  assumes "r \<in> set (rows (DataFrame_records data))"
    and "c \<notin> set (columns (DataFrame_records data))"
  shows "r c = None"
proof -
  obtain d where d: "d \<in> set data" and r: "r = map_of d"
    using assms(1) by (auto simp: DataFrame_records_def)
  have "c \<notin> fst ` set d"
    using assms(2) d by (auto simp: DataFrame_records_def first_seen_def)
  then show ?thesis
    using r by (simp add: map_of_eq_None_iff)
qed

lemma select_filled:
  "select_columns (fill_missing (DataFrame_records data) cols) cols
     = Inr \<lparr>columns = cols, rows = map map_of data\<rparr>"
proof -
  let ?df = "fill_missing (DataFrame_records data) cols"
  have "filter (\<lambda>c. c \<notin> set (columns ?df)) cols = []"
    using columns_fill_has [of cols "DataFrame_records data"] by (auto simp: filter_empty_conv)
  moreover have "rows ?df = rows (DataFrame_records data)"
    by (rule rows_fill) (rule rows_records_missing)
  ultimately show ?thesis
    by (simp add: select_columns_def DataFrame_records_def)
qed

lemma export_frame:
  "fst (export_to_csv fmt w self)
     = Inr (to_csv fmt \<lparr>columns = desired_columns, rows = map map_of (contents w self)\<rparr>)"
proof -
  obtain r w1 where get: "get_profile_data w self = (r, w1)"
    by (cases "get_profile_data w self")
  then have data: "map (dict_heap w1) (list_heap w1 r) = contents w self"
    by (auto simp: get_profile_data_def new_list_def contents_def entries_def)
  show ?thesis
  proof (cases "contents w self = []")
    case True
    then show ?thesis
      using data by (simp add: export_to_csv_def get DataFrame_columns_def)
  next
    case False
    then show ?thesis
      using data by (auto simp: export_to_csv_def get select_filled)
  qed
qed

lemma export_succeeds: "\<exists>s. fst (export_to_csv fmt w self) = Inr s"
  by (simp add: export_frame)

section \<open>Failures\<close>

text \<open>
  Claim C3. A call on the profiler raises exactly when it is \<open>configure\<close> with a value
  below one, and then it raises \<open>ValueError\<close> (the specification's InvalidCapacity);
  \<open>add_profile_data\<close>, \<open>get_profile_data\<close>, \<open>clear_data\<close> and \<open>export_to_csv\<close> never
  raise. A rejected \<open>configure\<close> leaves the whole world as it was, so the capacity and
  the entries are unchanged; from one upwards \<open>configure\<close> succeeds and sets the capacity.
\<close>

theorem configure_only_failure:
  "(fst (invoke fmt w self c) = Inl e \<longleftrightarrow>
      (\<exists>n. c = Configure n \<and> n < 1
         \<and> e = ValueError ''max_retained_requests must be at least 1.''))
   \<and> (n < 1 \<longrightarrow>
        configure w self n
          = (Inl (ValueError ''max_retained_requests must be at least 1.''), w))
   \<and> (1 \<le> n \<longrightarrow>
        fst (configure w self n) = Inr () \<and> capacity (snd (configure w self n)) self = n)"
proof -
  have "fst (invoke fmt w self c) = Inl e \<longleftrightarrow>
      (\<exists>n. c = Configure n \<and> n < 1
         \<and> e = ValueError ''max_retained_requests must be at least 1.'')"
  proof (cases c)
    case (Configure m)
    then show ?thesis
      by (auto simp: configure_def)
  next
    case (Record d)
    then show ?thesis by simp
  next
    case Snapshot
    then show ?thesis by (simp split: prod.splits)
  next
    case Clear
    then show ?thesis by simp
  next
    case Export
    obtain s where "fst (export_to_csv fmt w self) = Inr s"
      using export_succeeds [of fmt w self] by blast
    then show ?thesis
      using Export by (auto split: prod.splits sum.splits)
  qed
  moreover have "capacity (snd (configure w self n)) self = n" if "1 \<le> n"
    using that by (rule capacity_configure)
  ultimately show ?thesis
    by (simp add: configure_def)
qed

theorem configure_only_failure_witness:
  "fst (invoke (\<lambda>_ _. []) (record_all (snd (FastAPIProfiler_new (initial_world :: pyval world))) 0 [4, 5])
       0 (Configure 0)) = Inl (ValueError ''max_retained_requests must be at least 1.'')
   \<and> configure (record_all (snd (FastAPIProfiler_new (initial_world :: pyval world))) 0 [4, 5]) 0 (- 1)
       = (Inl (ValueError ''max_retained_requests must be at least 1.''),
          record_all (snd (FastAPIProfiler_new (initial_world :: pyval world))) 0 [4, 5])
   \<and> fst (configure (record_all (snd (FastAPIProfiler_new (initial_world :: pyval world))) 0 [4, 5]) 0 1)
       = Inr ()"
  using configure_only_failure [of "\<lambda>_ _. []"
      "record_all (snd (FastAPIProfiler_new (initial_world :: pyval world))) 0 [4, 5]" 0
      "Configure 0" "ValueError ''max_retained_requests must be at least 1.''" "- 1"]
    configure_only_failure [of "\<lambda>_ _. []"
      "record_all (snd (FastAPIProfiler_new (initial_world :: pyval world))) 0 [4, 5]" 0
      "Configure 0" "ValueError ''max_retained_requests must be at least 1.''" 1]
  by simp

section \<open>Clearing\<close>

text \<open>
  Claim C7. After \<open>clear_data\<close> the profiler has no entry and its capacity is what it
  was; the snapshot is empty. Clearing a second time gives the same entries, capacity
  and snapshot as clearing once. Dictionaries and the class attribute are untouched.
\<close>

theorem clear_idempotent:
  "entries (clear_data w self) self = []
   \<and> capacity (clear_data w self) self = capacity w self
   \<and> snapshot (clear_data w self) self = []
   \<and> entries (clear_data (clear_data w self) self) self = entries (clear_data w self) self
   \<and> capacity (clear_data (clear_data w self) self) self = capacity (clear_data w self) self
   \<and> snapshot (clear_data (clear_data w self) self) self = snapshot (clear_data w self) self
   \<and> dict_heap (clear_data w self) = dict_heap w
   \<and> cls_instance (clear_data w self) = cls_instance w"
  by (simp add: entries_clear capacity_clear snapshot_entries)
    (simp add: clear_data_def new_list_def)

theorem clear_idempotent_witness:
  "entries (record_all (snd (FastAPIProfiler_new (initial_world :: pyval world))) 0 [4, 5]) 0 = [4, 5]
   \<and> snapshot (clear_data
         (record_all (snd (FastAPIProfiler_new (initial_world :: pyval world))) 0 [4, 5]) 0) 0 = []
   \<and> capacity (clear_data
         (record_all (snd (FastAPIProfiler_new (initial_world :: pyval world))) 0 [4, 5]) 0) 0 = 1000"
proof -
  let ?init = "snd (FastAPIProfiler_new (initial_world :: pyval world))"
  have c: "capacity ?init 0 = 1000"
    by (simp add: capacity_def FastAPIProfiler_new_def initial_world_def new_list_def)
  have e: "entries ?init 0 = []"
    by (simp add: entries_def FastAPIProfiler_new_def initial_world_def new_list_def)
  have "entries (record_all ?init 0 [4, 5]) 0 = [4, 5]"
    using entries_record_all [of ?init 0 "[4, 5]"] c e by (simp add: most_recent_def)
  moreover have "snapshot (clear_data (record_all ?init 0 [4, 5]) 0) 0 = []"
    and "capacity (clear_data (record_all ?init 0 [4, 5]) 0) 0
      = capacity (record_all ?init 0 [4, 5]) 0"
    using clear_idempotent [of "record_all ?init 0 [4, 5]" 0] by blast+
  ultimately show ?thesis
    using c by (simp only: capacity_record_all) 
qed

section \<open>The CSV text\<close>

lemma pandas_text_lone: "pandas_text other [Some v] v = value_text other v"
  by (cases v) (simp_all add: pandas_text_def)

lemma float_text_thousandths:
  "\<bar>k\<bar> < 10 ^ 15 \<Longrightarrow> float_text other (of_int k / 1000) = thousandths_text k"
  by (simp add: float_text_def)

lemma export_rows:
  "fst (export_to_csv fmt w self)
     = Inr (csv_line desired_columns @
            concat (map (\<lambda>d. csv_line (map (\<lambda>col.
                case map_of d col of None \<Rightarrow> []
                | Some v \<Rightarrow> fmt (map (\<lambda>d'. map_of d' col) (contents w self)) v)
              desired_columns)) (contents w self)))"
  by (simp add: export_frame to_csv_def csv_cell_def [abs_def] o_def cong: option.case_cong)

lemma header_line:
  "csv_line desired_columns
     = ''Timestamp,RequestPath,HTTPMethod,StatusCode,TotalTimeMs,CPUTimeMs'' @ [CHR 0x0A]"
  by (simp add: csv_line_def desired_columns_def)

lemma one_row:
  "csv_line (map (\<lambda>col. case map_of d col of None \<Rightarrow> []
        | Some v \<Rightarrow> pandas_text other (map (\<lambda>d'. map_of d' col) [d]) v) desired_columns)
     = entry_field other d ''Timestamp'' @ '',''
       @ entry_field other d ''RequestPath'' @ '',''
       @ entry_field other d ''HTTPMethod'' @ '',''
       @ entry_field other d ''StatusCode'' @ '',''
       @ entry_field other d ''TotalTimeMs'' @ '',''
       @ entry_field other d ''CPUTimeMs'' @ [CHR 0x0A]"
  by (simp add: csv_line_def desired_columns_def entry_field_def pandas_text_lone
      split: option.splits)

text \<open>
  Claim C4. Without entries the export is the one line of the six labels
  \<open>Timestamp\<close>, \<open>RequestPath\<close>, \<open>HTTPMethod\<close>, \<open>StatusCode\<close>, \<open>TotalTimeMs\<close>, \<open>CPUTimeMs\<close>.
  With one entry it is that line and one row of six fields in that order, each the
  entry's value under the label: empty when the entry lacks the key, a string as it is
  (in double quotes when it holds a comma, a quote or a line break), an integer in
  decimal digits, a float rounded to three decimals as that decimal. In general
  there is one row of six fields per entry.
\<close>

theorem export_csv:
  "(entries w self = [] \<longrightarrow>
      fst (export_to_csv (pandas_text other) w self)
        = Inr (''Timestamp,RequestPath,HTTPMethod,StatusCode,TotalTimeMs,CPUTimeMs''
               @ [CHR 0x0A]))
   \<and> (contents w self = [d] \<longrightarrow>
        fst (export_to_csv (pandas_text other) w self)
          = Inr (''Timestamp,RequestPath,HTTPMethod,StatusCode,TotalTimeMs,CPUTimeMs''
                 @ [CHR 0x0A]
                 @ entry_field other d ''Timestamp'' @ '',''
                 @ entry_field other d ''RequestPath'' @ '',''
                 @ entry_field other d ''HTTPMethod'' @ '',''
                 @ entry_field other d ''StatusCode'' @ '',''
                 @ entry_field other d ''TotalTimeMs'' @ '',''
                 @ entry_field other d ''CPUTimeMs'' @ [CHR 0x0A]))
   \<and> (map_of d col = None \<longrightarrow> entry_field other d col = [])
   \<and> (map_of d col = Some (PyStr s) \<longrightarrow> entry_field other d col = csv_quote s)
   \<and> (\<not> list_ex (\<lambda>c. c \<in> {CHR '','', CHR 0x22, CHR 0x0A, CHR 0x0D}) s \<longrightarrow> csv_quote s = s)
   \<and> (map_of d col = Some (PyInt i) \<longrightarrow> entry_field other d col = int_text i)
   \<and> (map_of d col = Some (PyFloat (of_int k / 1000)) \<and> \<bar>k\<bar> < 10 ^ 15 \<longrightarrow>
        entry_field other d col = thousandths_text k)
   \<and> fst (export_to_csv (pandas_text other) w self)
       = Inr (csv_line desired_columns @
              concat (map (\<lambda>d. csv_line (map (\<lambda>col.
                  case map_of d col of None \<Rightarrow> []
                  | Some v \<Rightarrow> pandas_text other (map (\<lambda>d'. map_of d' col) (contents w self)) v)
                desired_columns)) (contents w self)))"
proof -
  have empty: "fst (export_to_csv (pandas_text other) w self)
          = Inr (''Timestamp,RequestPath,HTTPMethod,StatusCode,TotalTimeMs,CPUTimeMs''
                 @ [CHR 0x0A])" if "entries w self = []"
  proof -
    have "contents w self = []"
      using that by (simp add: contents_def)
    then show ?thesis
      by (simp only: export_rows header_line) simp
  qed
  have one: "fst (export_to_csv (pandas_text other) w self)
          = Inr (''Timestamp,RequestPath,HTTPMethod,StatusCode,TotalTimeMs,CPUTimeMs''
                 @ [CHR 0x0A]
                 @ entry_field other d ''Timestamp'' @ '',''
                 @ entry_field other d ''RequestPath'' @ '',''
                 @ entry_field other d ''HTTPMethod'' @ '',''
                 @ entry_field other d ''StatusCode'' @ '',''
                 @ entry_field other d ''TotalTimeMs'' @ '',''
                 @ entry_field other d ''CPUTimeMs'' @ [CHR 0x0A])" if "contents w self = [d]"
    using that one_row [where d = d and other = other] by (simp only: export_rows header_line) simp
  have fields: "(map_of d col = None \<longrightarrow> entry_field other d col = [])
    \<and> (map_of d col = Some (PyStr s) \<longrightarrow> entry_field other d col = csv_quote s)
    \<and> (\<not> list_ex (\<lambda>c. c \<in> {CHR '','', CHR 0x22, CHR 0x0A, CHR 0x0D}) s \<longrightarrow> csv_quote s = s)
    \<and> (map_of d col = Some (PyInt i) \<longrightarrow> entry_field other d col = int_text i)
    \<and> (map_of d col = Some (PyFloat (of_int k / 1000)) \<and> \<bar>k\<bar> < 10 ^ 15 \<longrightarrow>
        entry_field other d col = thousandths_text k)"
    by (simp add: entry_field_def csv_quote_def float_text_thousandths)
  show ?thesis
    using empty one fields export_rows [of "pandas_text other" w self] by blast
qed


theorem export_csv_witness:
  "contents dispatched_world 0
     = [[(''Timestamp'', PyStr ''2024-05-01 10:20:30''), (''RequestPath'', PyStr ''/items/3''),
         (''HTTPMethod'', PyStr ''GET''), (''StatusCode'', PyInt 200),
         (''TotalTimeMs'', PyFloat 12.346), (''CPUTimeMs'', PyFloat 0)]]
   \<and> fst (export_to_csv (pandas_text (\<lambda>_. [])) dispatched_world 0)
     = Inr (''Timestamp,RequestPath,HTTPMethod,StatusCode,TotalTimeMs,CPUTimeMs'' @ [CHR 0x0A]
            @ ''2024-05-01 10:20:30,/items/3,GET,200,12.346,0.0'' @ [CHR 0x0A])
   \<and> contents partial_entry_world 0
     = [[(''RequestPath'', PyStr ''/a,b''), (''StatusCode'', PyInt 404),
         (''TotalTimeMs'', PyFloat 7.5), (''Extra'', PyStr ''x'')]]
   \<and> fst (export_to_csv (pandas_text (\<lambda>_. [])) partial_entry_world 0)
     = Inr (''Timestamp,RequestPath,HTTPMethod,StatusCode,TotalTimeMs,CPUTimeMs'' @ [CHR 0x0A]
            @ '','' @ [CHR 0x22] @ ''/a,b'' @ [CHR 0x22] @ '',,404,7.5,'' @ [CHR 0x0A])
   \<and> entries (clear_data dispatched_world 0) 0 = []
   \<and> fst (export_to_csv (pandas_text (\<lambda>_. [])) (clear_data dispatched_world 0) 0)
     = Inr (''Timestamp,RequestPath,HTTPMethod,StatusCode,TotalTimeMs,CPUTimeMs'' @ [CHR 0x0A])"
proof -
  let ?d = "[(''Timestamp'', PyStr ''2024-05-01 10:20:30''), (''RequestPath'', PyStr ''/items/3''),
         (''HTTPMethod'', PyStr ''GET''), (''StatusCode'', PyInt 200),
         (''TotalTimeMs'', PyFloat 12.346), (''CPUTimeMs'', PyFloat 0)]"
  let ?p = "[(''RequestPath'', PyStr ''/a,b''), (''StatusCode'', PyInt 404),
         (''TotalTimeMs'', PyFloat 7.5), (''Extra'', PyStr ''x'')]"
  have c: "contents dispatched_world 0 = [?d]"
    by (simp add: dispatched_world_def dispatch_def try_finally_def sample_obs_def
        sample_request_def profile_active_def contents_def entries_def FastAPIProfiler_new_def
        initial_world_def new_list_def new_dict_def add_profile_data_def prune_old_data_def
        Let_def)
  have p: "contents partial_entry_world 0 = [?p]"
    by (simp add: partial_entry_world_def contents_def entries_def FastAPIProfiler_new_def
        initial_world_def new_list_def new_dict_def add_profile_data_def prune_old_data_def
        Let_def)
  have fd: "entry_field (\<lambda>_. []) ?d ''Timestamp'' = ''2024-05-01 10:20:30''"
    "entry_field (\<lambda>_. []) ?d ''RequestPath'' = ''/items/3''"
    "entry_field (\<lambda>_. []) ?d ''HTTPMethod'' = ''GET''"
    "entry_field (\<lambda>_. []) ?d ''StatusCode'' = ''200''"
    "entry_field (\<lambda>_. []) ?d ''TotalTimeMs'' = ''12.346''"
    "entry_field (\<lambda>_. []) ?d ''CPUTimeMs'' = ''0.0''"
    by code_simp+
  have fp: "entry_field (\<lambda>_. []) ?p ''Timestamp'' = []"
    "entry_field (\<lambda>_. []) ?p ''RequestPath'' = [CHR 0x22] @ ''/a,b'' @ [CHR 0x22]"
    "entry_field (\<lambda>_. []) ?p ''HTTPMethod'' = []"
    "entry_field (\<lambda>_. []) ?p ''StatusCode'' = ''404''"
    "entry_field (\<lambda>_. []) ?p ''TotalTimeMs'' = ''7.5''"
    "entry_field (\<lambda>_. []) ?p ''CPUTimeMs'' = []"
    by code_simp+
  have "fst (export_to_csv (pandas_text (\<lambda>_. [])) dispatched_world 0)
     = Inr (''Timestamp,RequestPath,HTTPMethod,StatusCode,TotalTimeMs,CPUTimeMs'' @ [CHR 0x0A]
            @ ''2024-05-01 10:20:30,/items/3,GET,200,12.346,0.0'' @ [CHR 0x0A])"
    using export_csv [where w = dispatched_world and self = 0 and other = "\<lambda>_. []" and d = ?d,
        THEN conjunct2, THEN conjunct1] c
    by (simp only: fd) simp
  moreover have "fst (export_to_csv (pandas_text (\<lambda>_. [])) partial_entry_world 0)
     = Inr (''Timestamp,RequestPath,HTTPMethod,StatusCode,TotalTimeMs,CPUTimeMs'' @ [CHR 0x0A]
            @ '','' @ [CHR 0x22] @ ''/a,b'' @ [CHR 0x22] @ '',,404,7.5,'' @ [CHR 0x0A])"
    using export_csv [where w = partial_entry_world and self = 0 and other = "\<lambda>_. []" and d = ?p,
        THEN conjunct2, THEN conjunct1] p
    by (simp only: fp) simp
  moreover have "fst (export_to_csv (pandas_text (\<lambda>_. [])) (clear_data dispatched_world 0) 0)
     = Inr (''Timestamp,RequestPath,HTTPMethod,StatusCode,TotalTimeMs,CPUTimeMs'' @ [CHR 0x0A])"
    using export_csv [where w = "clear_data dispatched_world 0" and self = 0
        and other = "\<lambda>_. []", THEN conjunct1]
    by (simp add: entries_clear)
  ultimately show ?thesis
    using c p by (simp add: entries_clear)
qed

section \<open>The single instance\<close>

lemma cls_instance_prune: "cls_instance (prune_old_data w self) = cls_instance w"
  by (simp add: prune_old_data_def new_list_def Let_def)

lemma cls_instance_invoke: "cls_instance (snd (invoke fmt w self c)) = cls_instance w"
proof (cases c)
  case (Configure n)
  then show ?thesis
    by (simp add: configure_def cls_instance_prune split: prod.splits sum.splits)
next
  case (Record d)
  then show ?thesis
    by (simp add: add_profile_data_def cls_instance_prune Let_def)
next
  case Snapshot
  then show ?thesis
    by (simp add: get_profile_data_def new_list_def)
next
  case Clear
  then show ?thesis
    by (simp add: clear_data_def new_list_def)
next
  case Export
  have "snd (invoke fmt w self c) = snd (get_profile_data w self)"
    using Export snd_export [of fmt w self] by (auto split: prod.splits sum.splits)
  then show ?thesis
    by (simp add: get_profile_data_def new_list_def)
qed

lemma cls_instance_run: "cls_instance (run fmt w self cs) = cls_instance w"
  by (induction cs arbitrary: w) (simp_all add: cls_instance_invoke)

lemma new_existing: "cls_instance w = Some a \<Longrightarrow> FastAPIProfiler_new w = (a, w)"
  by (simp add: FastAPIProfiler_new_def)

lemma construct_existing: "cls_instance w = Some a \<Longrightarrow> construct_times n w = (replicate n a, w)"
  by (induction n) (simp_all add: new_existing)

lemma new_first:
  "cls_instance w = None \<Longrightarrow>
   fst (FastAPIProfiler_new w) = inst_next w
   \<and> cls_instance (snd (FastAPIProfiler_new w)) = Some (inst_next w)
   \<and> entries (snd (FastAPIProfiler_new w)) (inst_next w) = []
   \<and> capacity (snd (FastAPIProfiler_new w)) (inst_next w) = 1000"
  by (simp add: FastAPIProfiler_new_def new_list_def entries_def capacity_def Let_def)

text \<open>
  Claim C10. The first construction creates the instance, with no entry and capacity
  1000, and stores it in the class attribute; every construction after it returns that
  same reference and changes nothing, also after any calls on the profiler. So
  constructing any number of times yields one reference each time and the world the
  first construction left.
\<close>

theorem singleton_instance:
  "(cls_instance w = None \<longrightarrow>
      cls_instance (snd (FastAPIProfiler_new w)) = Some (fst (FastAPIProfiler_new w))
      \<and> entries (snd (FastAPIProfiler_new w)) (fst (FastAPIProfiler_new w)) = []
      \<and> capacity (snd (FastAPIProfiler_new w)) (fst (FastAPIProfiler_new w)) = 1000
      \<and> construct_times (Suc n) w
          = (replicate (Suc n) (fst (FastAPIProfiler_new w)), snd (FastAPIProfiler_new w)))
   \<and> (cls_instance w = Some a \<longrightarrow>
        FastAPIProfiler_new w = (a, w)
        \<and> FastAPIProfiler_new (run fmt w self cs) = (a, run fmt w self cs))"
proof -
  have "construct_times (Suc n) w
      = (replicate (Suc n) (fst (FastAPIProfiler_new w)), snd (FastAPIProfiler_new w))"
    if "cls_instance w = None"
  proof -
    have "cls_instance (snd (FastAPIProfiler_new w)) = Some (fst (FastAPIProfiler_new w))"
      using that new_first [of w] by simp
    then have "construct_times n (snd (FastAPIProfiler_new w))
        = (replicate n (fst (FastAPIProfiler_new w)), snd (FastAPIProfiler_new w))"
      by (rule construct_existing)
    then show ?thesis
      by (simp add: case_prod_unfold Let_def)
  qed
  moreover have "FastAPIProfiler_new (run fmt w self cs) = (a, run fmt w self cs)"
    if "cls_instance w = Some a"
    using that by (simp add: new_existing cls_instance_run)
  ultimately show ?thesis
    using new_first [of w] by (simp add: new_existing)
qed

theorem singleton_instance_witness:
  "cls_instance (initial_world :: pyval world) = None
   \<and> construct_times 3 (initial_world :: pyval world)
       = ([0, 0, 0], snd (FastAPIProfiler_new initial_world))
   \<and> cls_instance (snd (FastAPIProfiler_new (initial_world :: pyval world))) = Some 0
   \<and> FastAPIProfiler_new
        (run (\<lambda>_ _. []) (snd (FastAPIProfiler_new (initial_world :: pyval world))) 0
           [Configure 2, Record 7, Record 8, Record 9])
       = (0, run (\<lambda>_ _. []) (snd (FastAPIProfiler_new (initial_world :: pyval world))) 0
           [Configure 2, Record 7, Record 8, Record 9])"
proof -
  let ?init = "initial_world :: pyval world"
  have n: "cls_instance ?init = None"
    by (simp add: initial_world_def)
  have f: "fst (FastAPIProfiler_new ?init) = 0"
    by (simp add: FastAPIProfiler_new_def initial_world_def new_list_def)
  have s: "cls_instance (snd (FastAPIProfiler_new ?init)) = Some 0"
    using singleton_instance [of ?init 2 0 "\<lambda>_ _. []" 0 "[]"] n f by simp
  have "construct_times 3 ?init = ([0, 0, 0], snd (FastAPIProfiler_new ?init))"
    using singleton_instance [of ?init 2 0 "\<lambda>_ _. []" 0 "[]"] n f
    by (simp add: numeral_3_eq_3)
  moreover have "FastAPIProfiler_new
        (run (\<lambda>_ _. []) (snd (FastAPIProfiler_new ?init)) 0
           [Configure 2, Record 7, Record 8, Record 9])
       = (0, run (\<lambda>_ _. []) (snd (FastAPIProfiler_new ?init)) 0
           [Configure 2, Record 7, Record 8, Record 9])"
    using singleton_instance [of "snd (FastAPIProfiler_new ?init)" 0 0 "\<lambda>_ _. []" 0
        "[Configure 2, Record 7, Record 8, Record 9]"] s
    by blast
  ultimately show ?thesis
    using n s by blast
qed

section \<open>Activation of profiling\<close>

text \<open>
  Claim C9. With the default on, profiling is active unless the query parameter is
  \<open>false\<close> in any letter case; with the default off, it is active exactly when the query
  parameter or the environment variable is \<open>true\<close> in any letter case. So a query
  parameter \<open>false\<close> switches an enabled default off, and a query parameter \<open>true\<close> or
  an enabled environment switches a disabled default on.
\<close>

theorem activation_precedence:
  "profile_active by_default env query
     = (if by_default
        then lower (case query of None \<Rightarrow> [] | Some v \<Rightarrow> v) \<noteq> ''false''
        else lower (case query of None \<Rightarrow> [] | Some v \<Rightarrow> v) = ''true''
             \<or> lower (case env of None \<Rightarrow> ''false'' | Some v \<Rightarrow> v) = ''true'')
   \<and> (lower q = ''false'' \<longrightarrow> \<not> profile_active True env (Some q))
   \<and> (lower q = ''true'' \<longrightarrow> profile_active False env (Some q))
   \<and> (lower e = ''true'' \<longrightarrow> profile_active False (Some e) query)"
  by (simp add: profile_active_def Let_def)

theorem activation_precedence_witness:
  "lower ''False'' = ''false'' \<and> \<not> profile_active True (Some ''true'') (Some ''False'')
   \<and> lower ''TRUE'' = ''true'' \<and> profile_active False None (Some ''TRUE'')
   \<and> lower ''True'' = ''true'' \<and> profile_active False (Some ''True'') None"
proof -
  have a: "lower ''False'' = ''false''" and b: "lower ''TRUE'' = ''true''"
    and c: "lower ''True'' = ''true''"
    by code_simp+
  show ?thesis
    using activation_precedence [of True "Some ''true''" "Some ''False''" "''False''" "''False''"]
      activation_precedence [of False None None "''TRUE''" "''TRUE''"]
      activation_precedence [of False "Some ''True''" None "''True''" "''True''"]
      a b c
    by blast
qed

section \<open>A handler that raises\<close>

text \<open>
  Claim C8. When \<open>call_next\<close> raises an instance of \<open>Exception\<close>, \<open>dispatch\<close> records one
  entry with status code 500, and then returns the substitute response with status
  500: the \<open>return\<close> in the \<open>finally\<close> block drops the exception that the \<open>except\<close>
  clause raised again, so the caller does not see it. When \<open>call_next\<close> raises outside
  \<open>Exception\<close>, nothing is recorded and \<open>dispatch\<close> raises \<open>AttributeError\<close>.
\<close>

theorem dispatch_handler_raises:
  "fst (dispatch mw obs req (Inl (Exception m)) w inst)
     = Returns \<lparr>status_code = 500, content = ''Internal Server Error''\<rparr>
   \<and> (\<exists>kvs. map_of kvs ''StatusCode'' = Some (PyInt 500)
        \<and> snd (dispatch mw obs req (Inl (Exception m)) w inst)
            = add_profile_data (snd (new_dict w kvs)) inst (fst (new_dict w kvs)))
   \<and> dispatch mw obs req (Inl (BaseException m)) w inst
     = (Raises (AttributeError no_status_code), w)"
proof -
  let ?cpu = "if profile_active (enable_by_default mw) (getenv_enabled obs)
                   (map_of (rev (query_params req)) (profile_query_param mw)) \<and> Profiler obs
              then (case profiler_cpu_time_ms obs of Some c \<Rightarrow> c | None \<Rightarrow> 0) else 0"
  let ?kvs = "[(''Timestamp'', PyStr (strftime_now obs)),
               (''RequestPath'', PyStr (url_path req)),
               (''HTTPMethod'', PyStr (request_method req)),
               (''StatusCode'', PyInt 500),
               (''TotalTimeMs'', PyFloat (total_time_ms obs)),
               (''CPUTimeMs'', PyFloat ?cpu)]"
  have d: "dispatch mw obs req (Inl (Exception m)) w inst
      = (Returns \<lparr>status_code = 500, content = ''Internal Server Error''\<rparr>,
         add_profile_data (snd (new_dict w ?kvs)) inst (fst (new_dict w ?kvs)))"
    by (simp add: dispatch_def try_finally_def new_dict_def Let_def)
  have "map_of ?kvs ''StatusCode'' = Some (PyInt 500)"
    by simp
  then have "\<exists>kvs. map_of kvs ''StatusCode'' = Some (PyInt 500)
        \<and> snd (dispatch mw obs req (Inl (Exception m)) w inst)
            = add_profile_data (snd (new_dict w kvs)) inst (fst (new_dict w kvs))"
    using d by (metis snd_conv)
  moreover have "dispatch mw obs req (Inl (BaseException m)) w inst
     = (Raises (AttributeError no_status_code), w)"
    by (simp add: dispatch_def try_finally_def Let_def)
  ultimately show ?thesis
    using d by simp
qed

theorem dispatch_handler_raises_witness:
  "fst (dispatch \<lparr>enable_by_default = False, profile_query_param = ''profile''\<rparr>
         sample_obs sample_request (Inl (Exception ''boom''))
         (snd (FastAPIProfiler_new initial_world)) 0)
     = Returns \<lparr>status_code = 500, content = ''Internal Server Error''\<rparr>
   \<and> contents (snd (dispatch \<lparr>enable_by_default = False, profile_query_param = ''profile''\<rparr>
         sample_obs sample_request (Inl (Exception ''boom''))
         (snd (FastAPIProfiler_new initial_world)) 0)) 0
     = [[(''Timestamp'', PyStr ''2024-05-01 10:20:30''), (''RequestPath'', PyStr ''/items/3''),
         (''HTTPMethod'', PyStr ''GET''), (''StatusCode'', PyInt 500),
         (''TotalTimeMs'', PyFloat 12.346), (''CPUTimeMs'', PyFloat 0)]]"
proof -
  let ?mw = "\<lparr>enable_by_default = False, profile_query_param = ''profile''\<rparr>"
  let ?w = "snd (FastAPIProfiler_new (initial_world :: pyval world))"
  have "fst (dispatch ?mw sample_obs sample_request (Inl (Exception ''boom'')) ?w 0)
      = Returns \<lparr>status_code = 500, content = ''Internal Server Error''\<rparr>"
    using dispatch_handler_raises [of ?mw sample_obs sample_request "''boom''" ?w 0]
    by (rule conjunct1)
  moreover have "contents (snd (dispatch ?mw sample_obs sample_request
        (Inl (Exception ''boom'')) ?w 0)) 0
     = [[(''Timestamp'', PyStr ''2024-05-01 10:20:30''), (''RequestPath'', PyStr ''/items/3''),
         (''HTTPMethod'', PyStr ''GET''), (''StatusCode'', PyInt 500),
         (''TotalTimeMs'', PyFloat 12.346), (''CPUTimeMs'', PyFloat 0)]]"
    by (simp add: dispatch_def try_finally_def sample_obs_def sample_request_def
        profile_active_def contents_def entries_def FastAPIProfiler_new_def initial_world_def
        new_list_def new_dict_def add_profile_data_def prune_old_data_def Let_def)
  ultimately show ?thesis
    by simp
qed


section \<open>Snapshots\<close>

lemma allocated_prune: "allocated w self \<Longrightarrow> allocated (prune_old_data w self) self"
  by (simp add: allocated_def prune_old_data_def new_list_def Let_def)

lemma allocated_invoke: "allocated w self \<Longrightarrow> allocated (snd (invoke fmt w self c)) self"
proof (cases c)
  case (Configure n)
  assume a: "allocated w self"
  let ?w = "w\<lparr>inst_heap := (inst_heap w)(self := (inst_heap w self)\<lparr>max_retained_requests := n\<rparr>)\<rparr>"
  have "allocated ?w self"
    using a by (simp add: allocated_def)
  then have "allocated (prune_old_data ?w self) self"
    by (rule allocated_prune)
  then show ?thesis
    using a Configure by (simp add: configure_def)
next
  case (Record d)
  assume a: "allocated w self"
  let ?w = "w\<lparr>list_heap := (list_heap w)(profiled_requests_data (inst_heap w self)
      := list_heap w (profiled_requests_data (inst_heap w self)) @ [d])\<rparr>"
  have "allocated ?w self"
    using a by (simp add: allocated_def)
  then have "allocated (prune_old_data ?w self) self"
    by (rule allocated_prune)
  then show ?thesis
    using Record by (simp add: add_profile_data_def Let_def)
next
  case Snapshot
  assume "allocated w self"
  then show ?thesis
    using Snapshot by (simp add: allocated_def get_profile_data_def new_list_def)
next
  case Clear
  then show ?thesis
    by (simp add: allocated_def clear_data_def new_list_def)
next
  case Export
  assume a: "allocated w self"
  have "snd (invoke fmt w self c) = snd (get_profile_data w self)"
    using Export snd_export [of fmt w self] by (auto split: prod.splits sum.splits)
  then show ?thesis
    using a by (simp add: allocated_def get_profile_data_def new_list_def)
qed

text \<open>
  Claim C6, as amended. \<open>get_profile_data\<close> returns a new list object holding the
  references of the entries: it is not the list of the profiler, and whatever the
  caller does to the returned list leaves the entries, the capacity and later
  snapshots of the profiler as they were. The dictionaries are not copied: a change
  made to one through the returned list keeps the references and the capacity of the
  profiler. The list of the profiler stays an allocated object under every call.
\<close>

theorem snapshot_list_independent:
  assumes "allocated w self"
  shows "(let (r, w1) = get_profile_data w self in
           list_heap w1 r = entries w self
           \<and> r \<noteq> profiled_requests_data (inst_heap w self)
           \<and> entries w1 self = entries w self
           \<and> entries (mutate w1 r (Set_list ys)) self = entries w self
           \<and> capacity (mutate w1 r (Set_list ys)) self = capacity w self
           \<and> contents (mutate w1 r (Set_list ys)) self = contents w self
           \<and> snapshot (mutate w1 r (Set_list ys)) self = snapshot w self
           \<and> entries (mutate w1 r (Set_entry i kvs)) self = entries w self
           \<and> capacity (mutate w1 r (Set_entry i kvs)) self = capacity w self)
    \<and> allocated (snd (invoke fmt w self c)) self"
proof -
  have ne: "list_next w \<noteq> profiled_requests_data (inst_heap w self)"
    using assms by (simp add: allocated_def)
  have "let (r, w1) = get_profile_data w self in
           list_heap w1 r = entries w self
           \<and> r \<noteq> profiled_requests_data (inst_heap w self)
           \<and> entries w1 self = entries w self
           \<and> entries (mutate w1 r (Set_list ys)) self = entries w self
           \<and> capacity (mutate w1 r (Set_list ys)) self = capacity w self
           \<and> contents (mutate w1 r (Set_list ys)) self = contents w self
           \<and> snapshot (mutate w1 r (Set_list ys)) self = snapshot w self
           \<and> entries (mutate w1 r (Set_entry i kvs)) self = entries w self
           \<and> capacity (mutate w1 r (Set_entry i kvs)) self = capacity w self"
    using ne
    by (simp add: get_profile_data_def new_list_def snapshot_entries contents_def entries_def
        capacity_def)
  then show ?thesis
    using assms by (simp add: allocated_invoke)
qed


theorem snapshot_list_independent_witness:
  "allocated one_entry_world 0
   \<and> snapshot one_entry_world 0 = [0]
   \<and> fst (get_profile_data one_entry_world 0) = 1
   \<and> snapshot (mutate (snd (get_profile_data one_entry_world 0)) 1 (Set_list [])) 0 = [0]"
proof -
  have a: "allocated one_entry_world 0"
    by (simp add: allocated_def one_entry_world_def FastAPIProfiler_new_def
        initial_world_def new_list_def new_dict_def add_profile_data_def prune_old_data_def
        Let_def)
  have s: "snapshot one_entry_world 0 = [0]"
    by (simp add: snapshot_entries entries_def one_entry_world_def FastAPIProfiler_new_def
        initial_world_def new_list_def new_dict_def add_profile_data_def prune_old_data_def
        Let_def)
  have f: "fst (get_profile_data one_entry_world 0) = 1"
    by (simp add: get_profile_data_def one_entry_world_def FastAPIProfiler_new_def
        initial_world_def new_list_def new_dict_def add_profile_data_def prune_old_data_def
        Let_def)
  have "snapshot (mutate (snd (get_profile_data one_entry_world 0))
          (fst (get_profile_data one_entry_world 0)) (Set_list [])) 0
      = snapshot one_entry_world 0"
    using snapshot_list_independent [OF a, of "[]" 0 "[]" "\<lambda>_ v. v" Snapshot]
    by (simp add: case_prod_unfold Let_def)
  then show ?thesis
    using a s f by simp
qed

text \<open>
  The dictionaries of a snapshot are those of the profiler: replacing the content of
  the dictionary reached through the returned list changes what the profiler holds.
\<close>

theorem snapshot_entries_shared_counterexample:
  "allocated one_entry_world 0
   \<and> contents (mutate (snd (get_profile_data one_entry_world 0))
         (fst (get_profile_data one_entry_world 0)) (Set_entry 0 [(''StatusCode'', ''999'')])) 0
       = [[(''StatusCode'', ''999'')]]
   \<and> contents (snd (get_profile_data one_entry_world 0)) 0
       = [[(''Timestamp'', ''2024-05-01 10:20:30''), (''RequestPath'', ''/items/3''),
           (''HTTPMethod'', ''GET''), (''StatusCode'', ''200''), (''TotalTimeMs'', ''12.346'')]]
   \<and> contents (mutate (snd (get_profile_data one_entry_world 0))
         (fst (get_profile_data one_entry_world 0)) (Set_entry 0 [(''StatusCode'', ''999'')])) 0
       \<noteq> contents (snd (get_profile_data one_entry_world 0)) 0"
  by (simp add: allocated_def contents_def entries_def get_profile_data_def
      one_entry_world_def FastAPIProfiler_new_def initial_world_def new_list_def new_dict_def
      add_profile_data_def prune_old_data_def Let_def)

end
